theory Spec2Isabelle
  imports Complex_Main
begin

section \<open>Numeric values\<close>

text \<open>
  The analytics work on numpy \<open>float64\<close> values held in pandas Series. A value is a
  finite number, one of the two infinities, or NaN (which pandas also uses for a missing
  observation). Finite arithmetic is exact here (no rounding, no overflow) and the sign
  of a zero is not tracked; the special values follow IEEE 754 as numpy applies it:
  operations on np.float64 never raise, a division by zero yields an infinity or NaN.
\<close>

datatype float64 = Fin real | PInf | NInf | NaN

fun isnan :: "float64 \<Rightarrow> bool" where
  "isnan NaN = True"
| "isnan _ = False"

fun isfinite :: "float64 \<Rightarrow> bool" where
  "isfinite (Fin _) = True"
| "isfinite _ = False"

fun isinf :: "float64 \<Rightarrow> bool" where
  "isinf PInf = True"
| "isinf NInf = True"
| "isinf _ = False"

fun fneg :: "float64 \<Rightarrow> float64" where
  "fneg (Fin a) = Fin (- a)"
| "fneg PInf = NInf"
| "fneg NInf = PInf"
| "fneg NaN = NaN"

fun fadd :: "float64 \<Rightarrow> float64 \<Rightarrow> float64" where
  "fadd (Fin a) (Fin b) = Fin (a + b)"
| "fadd (Fin a) PInf = PInf"
| "fadd (Fin a) NInf = NInf"
| "fadd PInf (Fin b) = PInf"
| "fadd PInf PInf = PInf"
| "fadd PInf NInf = NaN"
| "fadd NInf (Fin b) = NInf"
| "fadd NInf NInf = NInf"
| "fadd NInf PInf = NaN"
| "fadd NaN _ = NaN"
| "fadd _ NaN = NaN"

definition signed_inf :: "bool \<Rightarrow> float64" where
  "signed_inf positive = (if positive then PInf else NInf)"

fun fmul :: "float64 \<Rightarrow> float64 \<Rightarrow> float64" where
  "fmul (Fin a) (Fin b) = Fin (a * b)"
| "fmul (Fin a) PInf = (if a = 0 then NaN else signed_inf (0 < a))"
| "fmul (Fin a) NInf = (if a = 0 then NaN else signed_inf (a < 0))"
| "fmul PInf (Fin b) = (if b = 0 then NaN else signed_inf (0 < b))"
| "fmul NInf (Fin b) = (if b = 0 then NaN else signed_inf (b < 0))"
| "fmul PInf PInf = PInf"
| "fmul PInf NInf = NInf"
| "fmul NInf PInf = NInf"
| "fmul NInf NInf = PInf"
| "fmul NaN _ = NaN"
| "fmul _ NaN = NaN"

text \<open>numpy's true division: \<open>0/0\<close> and \<open>inf/inf\<close> are NaN, a nonzero finite value
  over zero is an infinity with the sign of the numerator (the zero taken as \<open>+0\<close>).\<close>

fun fdiv :: "float64 \<Rightarrow> float64 \<Rightarrow> float64" where
  "fdiv (Fin a) (Fin b) =
     (if b = 0 then (if a = 0 then NaN else signed_inf (0 < a)) else Fin (a / b))"
| "fdiv (Fin a) PInf = Fin 0"
| "fdiv (Fin a) NInf = Fin 0"
| "fdiv PInf (Fin b) = signed_inf (0 \<le> b)"
| "fdiv NInf (Fin b) = signed_inf (b < 0)"
| "fdiv PInf PInf = NaN"
| "fdiv PInf NInf = NaN"
| "fdiv NInf PInf = NaN"
| "fdiv NInf NInf = NaN"
| "fdiv NaN _ = NaN"
| "fdiv _ NaN = NaN"

fun fabs :: "float64 \<Rightarrow> float64" where
  "fabs (Fin a) = Fin \<bar>a\<bar>"
| "fabs PInf = PInf"
| "fabs NInf = PInf"
| "fabs NaN = NaN"

text \<open>Comparisons: every comparison with NaN is false.\<close>

fun flt :: "float64 \<Rightarrow> float64 \<Rightarrow> bool" where
  "flt (Fin a) (Fin b) = (a < b)"
| "flt (Fin a) PInf = True"
| "flt NInf (Fin b) = True"
| "flt NInf PInf = True"
| "flt _ _ = False"

fun fle :: "float64 \<Rightarrow> float64 \<Rightarrow> bool" where
  "fle (Fin a) (Fin b) = (a \<le> b)"
| "fle NaN _ = False"
| "fle _ NaN = False"
| "fle _ PInf = True"
| "fle NInf _ = True"
| "fle _ _ = False"

text \<open>The usual operator symbols on \<open>float64\<close>; only the syntactic classes are
  instantiated, so no algebraic law of the reals is assumed for these values.\<close>

instantiation float64 :: "{zero, one, plus, minus, uminus, times, inverse, abs, ord}"
begin

definition zero_float64 :: float64 where "zero_float64 = Fin 0"
definition one_float64 :: float64 where "one_float64 = Fin 1"
definition plus_float64 :: "float64 \<Rightarrow> float64 \<Rightarrow> float64" where "plus_float64 = fadd"
definition uminus_float64 :: "float64 \<Rightarrow> float64" where "uminus_float64 = fneg"
definition minus_float64 :: "float64 \<Rightarrow> float64 \<Rightarrow> float64" where
  "minus_float64 a b = fadd a (fneg b)"
definition times_float64 :: "float64 \<Rightarrow> float64 \<Rightarrow> float64" where "times_float64 = fmul"
definition divide_float64 :: "float64 \<Rightarrow> float64 \<Rightarrow> float64" where "divide_float64 = fdiv"
definition inverse_float64 :: "float64 \<Rightarrow> float64" where "inverse_float64 a = fdiv (Fin 1) a"
definition abs_float64 :: "float64 \<Rightarrow> float64" where "abs_float64 = fabs"
definition less_float64 :: "float64 \<Rightarrow> float64 \<Rightarrow> bool" where "less_float64 = flt"
definition less_eq_float64 :: "float64 \<Rightarrow> float64 \<Rightarrow> bool" where "less_eq_float64 = fle"

instance ..

end

lemmas float64_ops =
  zero_float64_def one_float64_def plus_float64_def uminus_float64_def minus_float64_def
  times_float64_def divide_float64_def inverse_float64_def abs_float64_def
  less_float64_def less_eq_float64_def signed_inf_def

section \<open>Series\<close>

text \<open>A pandas Series: an index label and a value per position. \<open>dropna\<close> removes
  the positions whose value is NaN and keeps the labels of the others.\<close>

type_synonym 'i series = "('i \<times> float64) list"

definition dropna :: "'i series \<Rightarrow> 'i series" where
  "dropna s = filter (\<lambda>p. \<not> isnan (snd p)) s"

datatype py_error = IndexError | ZeroDivisionError | ValueError

text \<open>\<open>s.iloc[k]\<close> for a position \<open>k \<ge> 0\<close>.\<close>

definition iloc :: "'i series \<Rightarrow> nat \<Rightarrow> py_error + float64" where
  "iloc s k = (if k < length s then Inr (snd (s ! k)) else Inl IndexError)"

text \<open>\<open>s.iloc[-1]\<close>: the value at the last position.\<close>

definition iloc_last :: "'i series \<Rightarrow> py_error + float64" where
  "iloc_last s = (if s = [] then Inl IndexError else Inr (snd (last s)))"

section \<open>Backtest (mean\_reversion\_backtest.py)\<close>

record 'i bt_state =
  position :: int
  pnl :: float64
  equity_curve :: "float64 list"
  timestamps :: "'i list"

definition bt_init :: "'i bt_state" where
  "bt_init = \<lparr>position = 0, pnl = Fin 0, equity_curve = [], timestamps = []\<rparr>"

text \<open>The position after the entry rules and the exit rule of one loop iteration.\<close>

definition entry_rules :: "float64 \<Rightarrow> float64 \<Rightarrow> int \<Rightarrow> int" where
  "entry_rules prev_z entry_z pos =
     (if prev_z > entry_z then - 1
      else if prev_z < - entry_z then 1
      else pos)"

definition exit_rule :: "float64 \<Rightarrow> float64 \<Rightarrow> int \<Rightarrow> int" where
  "exit_rule prev_z exit_z pos = (if \<bar>prev_z\<bar> < exit_z then 0 else pos)"

text \<open>The body of the loop \<open>for i in range(1, len(z))\<close>. Both \<open>z.iloc[i-1]\<close> and
  \<open>z.iloc[i]\<close> are in range for every \<open>i\<close> the loop visits.\<close>

definition bt_step :: "'i series \<Rightarrow> float64 \<Rightarrow> float64 \<Rightarrow> nat \<Rightarrow> 'i bt_state \<Rightarrow> 'i bt_state" where
  "bt_step z entry_z exit_z i s =
     (let prev_z = snd (z ! (i - 1));
          curr_z = snd (z ! i);
          pos = exit_rule prev_z exit_z (entry_rules prev_z entry_z (position s));
          pnl' = pnl s + Fin (of_int pos) * (curr_z - prev_z)
      in \<lparr>position = pos, pnl = pnl',
          equity_curve = equity_curve s @ [pnl'],
          timestamps = timestamps s @ [fst (z ! i)]\<rparr>)"

text \<open>The loop state after the iterations \<open>i = 1, ..., k\<close> over the cleaned series.\<close>

definition bt_run :: "'i series \<Rightarrow> float64 \<Rightarrow> float64 \<Rightarrow> nat \<Rightarrow> 'i bt_state" where
  "bt_run z entry_z exit_z k = fold (bt_step z entry_z exit_z) [1..<Suc k] bt_init"

definition mean_reversion_backtest ::
  "'i series \<Rightarrow> float64 \<Rightarrow> float64 \<Rightarrow> float64 \<times> 'i series" where
  "mean_reversion_backtest z0 entry_z exit_z =
     (let z = dropna z0 in
      if length z < 5 then (Fin 0, [])
      else
        let s = fold (bt_step z entry_z exit_z) [1..<length z] bt_init
        in (pnl s, zip (timestamps s) (equity_curve s)))"

text \<open>The z-score sequence of the worked example.\<close>

definition example_z :: "nat series" where
  "example_z = [(0, Fin 0), (1, Fin 2.5), (2, Fin 2.5), (3, Fin 0.05), (4, Fin (- 2.5))]"

section \<open>Alert engine (features.py, class AlertEngine)\<close>

text \<open>An alert as \<open>check_all\<close> emits it: the name, the observed value, the threshold.\<close>

type_synonym alert = "string \<times> float64 \<times> float64"

definition check :: "'i series \<Rightarrow> float64 \<Rightarrow> py_error + bool" where
  "check z threshold =
     (if length (dropna z) = 0 then Inr False
      else case iloc_last z of
             Inl e \<Rightarrow> Inl e
           | Inr v \<Rightarrow> Inr (\<bar>v\<bar> > threshold))"

definition check_spread :: "'i series \<Rightarrow> float64 \<Rightarrow> py_error + bool" where
  "check_spread spread threshold =
     (if length (dropna spread) = 0 then Inr False
      else case iloc_last spread of
             Inl e \<Rightarrow> Inl e
           | Inr v \<Rightarrow> Inr (\<bar>v\<bar> > threshold))"

definition check_correlation_drop :: "'i series \<Rightarrow> float64 \<Rightarrow> py_error + bool" where
  "check_correlation_drop corr threshold =
     (if length (dropna corr) = 0 then Inr False
      else case iloc_last corr of
             Inl e \<Rightarrow> Inl e
           | Inr v \<Rightarrow> Inr (v < threshold))"

text \<open>\<open>if triggered: alerts.append((name, s.iloc[-1], thresh))\<close>, as the list of
  alerts this adds.\<close>

definition append_if :: "py_error + bool \<Rightarrow> string \<Rightarrow> 'i series \<Rightarrow> float64 \<Rightarrow> py_error + alert list" where
  "append_if triggered name s thresh =
     (case triggered of
        Inl e \<Rightarrow> Inl e
      | Inr False \<Rightarrow> Inr []
      | Inr True \<Rightarrow>
          (case iloc_last s of
             Inl e \<Rightarrow> Inl e
           | Inr v \<Rightarrow> Inr [(name, v, thresh)]))"

text \<open>\<open>check_all\<close>: an optional argument is \<open>None\<close> when the caller leaves it out. The
  three conditions are evaluated in the order of the source; an exception in one of them
  would end the call.\<close>

definition check_all ::
  "'i series \<Rightarrow> float64 \<Rightarrow> 'i series option \<Rightarrow> float64 option \<Rightarrow>
   'i series option \<Rightarrow> float64 option \<Rightarrow> py_error + alert list" where
  "check_all z z_thresh spread spread_thresh corr corr_thresh =
     (case append_if (check z z_thresh) ''Z-Score'' z z_thresh of
        Inl e \<Rightarrow> Inl e
      | Inr a1 \<Rightarrow>
          (case (case (spread, spread_thresh) of
                   (Some s, Some t) \<Rightarrow> append_if (check_spread s t) ''Spread Width'' s t
                 | _ \<Rightarrow> Inr []) of
             Inl e \<Rightarrow> Inl e
           | Inr a2 \<Rightarrow>
               (case (case (corr, corr_thresh) of
                        (Some c, Some t) \<Rightarrow> append_if (check_correlation_drop c t) ''Correlation Drop'' c t
                      | _ \<Rightarrow> Inr []) of
                  Inl e \<Rightarrow> Inl e
                | Inr a3 \<Rightarrow> Inr (a1 @ a2 @ a3))))"

text \<open>The most recent defined value of a series, in the words of the specification:
  the last of the values that are not missing.\<close>

definition latest_defined :: "'i series \<Rightarrow> float64 option" where
  "latest_defined s = (if dropna s = [] then None else Some (snd (last (dropna s))))"

text \<open>A z-score series whose last value is missing after a defined one.\<close>

definition stale_z :: "nat series" where
  "stale_z = [(0, Fin 3), (1, NaN)]"

text \<open>A series all of whose values are missing (the empty series included).\<close>

definition all_missing :: "'i series \<Rightarrow> bool" where
  "all_missing s = list_all (\<lambda>p. isnan (snd p)) s"

text \<open>The alerts one condition contributes, when it is enabled.\<close>

definition z_alerts :: "'i series \<Rightarrow> float64 \<Rightarrow> alert list" where
  "z_alerts z t = (if dropna z \<noteq> [] \<and> \<bar>snd (last z)\<bar> > t then [(''Z-Score'', snd (last z), t)] else [])"

definition spread_alerts :: "'i series option \<Rightarrow> float64 option \<Rightarrow> alert list" where
  "spread_alerts spread spread_thresh =
     (case (spread, spread_thresh) of
        (Some s, Some t) \<Rightarrow>
          (if dropna s \<noteq> [] \<and> \<bar>snd (last s)\<bar> > t then [(''Spread Width'', snd (last s), t)] else [])
      | _ \<Rightarrow> [])"

definition corr_alerts :: "'i series option \<Rightarrow> float64 option \<Rightarrow> alert list" where
  "corr_alerts corr corr_thresh =
     (case (corr, corr_thresh) of
        (Some c, Some t) \<Rightarrow>
          (if dropna c \<noteq> [] \<and> snd (last c) < t then [(''Correlation Drop'', snd (last c), t)] else [])
      | _ \<Rightarrow> [])"

section \<open>Adaptive hedge ratio (features.py, kalman\_hedge\_ratio)\<close>

text \<open>Division of two Python floats (the parameters): a zero divisor raises.\<close>

definition py_truediv :: "float64 \<Rightarrow> float64 \<Rightarrow> py_error + float64" where
  "py_truediv a b = (if b = Fin 0 then Inl ZeroDivisionError else Inr (a / b))"

text \<open>The loop state: the array \<open>hr\<close> and the variable \<open>P\<close>.\<close>

record kf_state =
  kf_hr :: "float64 list"
  kf_P :: float64

definition kf_init :: "nat \<Rightarrow> kf_state" where
  "kf_init n = \<lparr>kf_hr = replicate n (Fin 0), kf_P = Fin 1\<rparr>"

text \<open>\<open>if t > 0: P = P + Q\<close>\<close>

definition predict :: "nat \<Rightarrow> float64 \<Rightarrow> float64 \<Rightarrow> float64" where
  "predict t P Q = (if t > 0 then P + Q else P)"

text \<open>\<open>K = P * x / (x**2 * P + R)\<close>, on np.float64 values: nothing raises.\<close>

definition kalman_gain :: "float64 \<Rightarrow> float64 \<Rightarrow> float64 \<Rightarrow> float64" where
  "kalman_gain P x R = P * x / (x * x * P + R)"

text \<open>One iteration of the loop body once \<open>x.iloc[t]\<close> and \<open>y.iloc[t]\<close> are read.\<close>

definition kalman_update :: "float64 \<Rightarrow> float64 \<Rightarrow> nat \<Rightarrow> float64 \<Rightarrow> float64 \<Rightarrow> kf_state \<Rightarrow> kf_state" where
  "kalman_update Q R t x_t y_t s =
     (let P = predict t (kf_P s) Q;
          y_hat = (if t > 0 then kf_hr s ! (t - 1) * x_t else Fin 0);
          e = y_t - y_hat;
          K = kalman_gain P x_t R
      in \<lparr>kf_hr = (kf_hr s)[t := (if t > 0 then kf_hr s ! (t - 1) + K * e else Fin 0)],
          kf_P = (Fin 1 - K * x_t) * P\<rparr>)"

definition kalman_step ::
  "'i series \<Rightarrow> 'j series \<Rightarrow> float64 \<Rightarrow> float64 \<Rightarrow> nat \<Rightarrow> kf_state \<Rightarrow> py_error + kf_state" where
  "kalman_step y x Q R t s =
     (case iloc x t of
        Inl err \<Rightarrow> Inl err
      | Inr x_t \<Rightarrow>
          (case iloc y t of
             Inl err \<Rightarrow> Inl err
           | Inr y_t \<Rightarrow> Inr (kalman_update Q R t x_t y_t s)))"

text \<open>\<open>for t in range(n)\<close>, stopping at the first exception.\<close>

fun kalman_loop ::
  "'i series \<Rightarrow> 'j series \<Rightarrow> float64 \<Rightarrow> float64 \<Rightarrow> nat list \<Rightarrow> kf_state \<Rightarrow> py_error + kf_state" where
  "kalman_loop y x Q R [] s = Inr s"
| "kalman_loop y x Q R (t # ts) s =
     (case kalman_step y x Q R t s of
        Inl err \<Rightarrow> Inl err
      | Inr s' \<Rightarrow> kalman_loop y x Q R ts s')"

definition kalman_hedge_ratio ::
  "'i series \<Rightarrow> 'j series \<Rightarrow> float64 \<Rightarrow> float64 \<Rightarrow> py_error + float64 list" where
  "kalman_hedge_ratio y x delta R =
     (let n = length y in
      case py_truediv delta (Fin 1 - delta) of
        Inl err \<Rightarrow> Inl err
      | Inr Q \<Rightarrow>
          (case kalman_loop y x Q R [0..<n] (kf_init n) of
             Inl err \<Rightarrow> Inl err
           | Inr s \<Rightarrow> Inr (kf_hr s)))"

text \<open>The loop state after the first \<open>k\<close> iterations, when both series have at least
  \<open>k\<close> observations.\<close>

fun kf_after :: "'i series \<Rightarrow> 'j series \<Rightarrow> float64 \<Rightarrow> float64 \<Rightarrow> nat \<Rightarrow> kf_state" where
  "kf_after y x Q R 0 = kf_init (length y)"
| "kf_after y x Q R (Suc k) =
     kalman_update Q R k (snd (x ! k)) (snd (y ! k)) (kf_after y x Q R k)"

text \<open>Two observations of each series, for a worked run of the filter.\<close>

definition example_y :: "nat series" where
  "example_y = [(0, Fin 1), (1, Fin 2)]"

definition example_x :: "nat series" where
  "example_x = [(0, Fin 1), (1, Fin 1)]"

text \<open>An input whose \<open>x\<close> is zero throughout.\<close>

definition flat_y :: "nat series" where
  "flat_y = [(0, Fin 5), (1, Fin 7), (2, Fin 6)]"

definition flat_x :: "nat series" where
  "flat_x = [(0, Fin 0), (1, Fin 0), (2, Fin 0)]"

section \<open>Static hedge ratio (features.py, huber\_hedge\_ratio)\<close>

text \<open>\<open>s.values\<close>: the values of a Series, without the index.\<close>

definition vals :: "'i series \<Rightarrow> float64 list" where
  "vals s = map snd s"

text \<open>The number a finite value stands for.\<close>

fun real_of :: "float64 \<Rightarrow> real" where
  "real_of (Fin r) = r"
| "real_of _ = 0"

text \<open>
  The regression is scikit-learn's \<open>HuberRegressor\<close>, which is not part of the repository.
  Its numerical solver is a parameter here: from the validated design matrix and targets
  it gives the coefficient vector \<open>coef_\<close>, or raises (ValueError when the optimiser
  fails). What \<open>fit\<close> checks before the solver runs is the library's documented input
  validation: at least one sample, no NaN or infinite entry, and as many targets as
  samples; each violation raises ValueError.
\<close>

type_synonym solver = "real list list \<Rightarrow> real list \<Rightarrow> py_error + float64 list"

definition check_X_y :: "float64 list list \<Rightarrow> float64 list \<Rightarrow> py_error + unit" where
  "check_X_y X y =
     (if length X < 1 then Inl ValueError
      else if \<not> list_all (list_all isfinite) X then Inl ValueError
      else if \<not> list_all isfinite y then Inl ValueError
      else if length X \<noteq> length y then Inl ValueError
      else Inr ())"

definition HuberRegressor_fit :: "solver \<Rightarrow> float64 list list \<Rightarrow> float64 list \<Rightarrow> py_error + float64 list" where
  "HuberRegressor_fit solve X y =
     (case check_X_y X y of
        Inl err \<Rightarrow> Inl err
      | Inr _ \<Rightarrow> solve (map (map real_of) X) (map real_of y))"

text \<open>\<open>x.values.reshape(-1, 1)\<close>: one row of one feature per observation.\<close>

definition reshape_column :: "float64 list \<Rightarrow> float64 list list" where
  "reshape_column vs = map (\<lambda>v. [v]) vs"

text \<open>\<open>model.coef_[0]\<close> raises IndexError on an empty coefficient vector.\<close>

definition huber_hedge_ratio :: "solver \<Rightarrow> 'i series \<Rightarrow> 'j series \<Rightarrow> py_error + float64" where
  "huber_hedge_ratio solve y x =
     (case HuberRegressor_fit solve (reshape_column (vals x)) (vals y) of
        Inl err \<Rightarrow> Inl err
      | Inr coef \<Rightarrow> (case coef of [] \<Rightarrow> Inl IndexError | c # _ \<Rightarrow> Inr c))"

text \<open>A stand-in solver for worked examples: the least-squares slope through the
  origin, \<open>sum x*y / sum x*x\<close>.\<close>

definition origin_slope :: solver where
  "origin_slope X y =
     Inr [Fin (sum_list (map2 (\<lambda>row t. hd row * t) X y) / sum_list (map (\<lambda>row. hd row * hd row) X))]"

section \<open>Properties of the backtest\<close>

lemma dropna_idem: "dropna (dropna s) = dropna s"
  by (simp add: dropna_def)

text \<open>
  C6. A z-score sequence with fewer than 5 defined observations gives \<open>(0.0, empty)\<close>
  for every entry and exit threshold; no error branch exists in the function. Missing
  values are dropped before the length check and the simulation: the result is the one
  computed from the cleaned sequence, whose entries are exactly the defined entries of
  the input, in order.
\<close>

theorem C6_short_input_returns_zero_and_empty:
  "(length (dropna z) < 5 \<longrightarrow> mean_reversion_backtest z entry_z exit_z = (Fin 0, []))
   \<and> mean_reversion_backtest z entry_z exit_z = mean_reversion_backtest (dropna z) entry_z exit_z
   \<and> dropna z = filter (\<lambda>p. snd p \<noteq> NaN) z"
proof -
  have "\<And>v. (\<not> isnan v) = (v \<noteq> NaN)"
    by (case_tac v) simp_all
  then have d: "dropna z = filter (\<lambda>p. snd p \<noteq> NaN) z"
    by (simp add: dropna_def)
  have r: "mean_reversion_backtest z entry_z exit_z
             = mean_reversion_backtest (dropna z) entry_z exit_z"
    by (simp add: mean_reversion_backtest_def dropna_idem)
  have s: "length (dropna z) < 5 \<longrightarrow> mean_reversion_backtest z entry_z exit_z = (Fin 0, [])"
    by (simp add: mean_reversion_backtest_def)
  from s r d show ?thesis by blast
qed

theorem C6_witness:
  "length (dropna [(1::nat, Fin 3), (2, NaN), (3, Fin (-3)), (4, NaN), (5, Fin 1), (6, Fin 0)]) < 5
   \<and> mean_reversion_backtest [(1::nat, Fin 3), (2, NaN), (3, Fin (-3)), (4, NaN), (5, Fin 1), (6, Fin 0)]
        (Fin 2) (Fin 0.1) = (Fin 0, [])"
  using C6_short_input_returns_zero_and_empty
    [of "[(1::nat, Fin 3), (2, NaN), (3, Fin (-3)), (4, NaN), (5, Fin 1), (6, Fin 0)]" "Fin 2" "Fin 0.1"]
  by (simp add: dropna_def)


lemma bt_run_0: "bt_run z entry_z exit_z 0 = bt_init"
  by (simp add: bt_run_def)

lemma bt_run_Suc:
  "bt_run z entry_z exit_z (Suc k) = bt_step z entry_z exit_z (Suc k) (bt_run z entry_z exit_z k)"
  by (simp add: bt_run_def)

lemma mrb_long:
  assumes "5 \<le> length (dropna z0)"
  shows "mean_reversion_backtest z0 entry_z exit_z =
           (let z = dropna z0; s = bt_run z entry_z exit_z (length z - 1)
            in (pnl s, zip (timestamps s) (equity_curve s)))"
proof -
  have n: "Suc (length (dropna z0) - 1) = length (dropna z0)"
    using assms by simp
  have "bt_run (dropna z0) entry_z exit_z (length (dropna z0) - 1)
          = fold (bt_step (dropna z0) entry_z exit_z) [1..<length (dropna z0)] bt_init"
    unfolding bt_run_def n ..
  moreover have "\<not> length (dropna z0) < 5"
    using assms by simp
  ultimately show ?thesis
    unfolding mean_reversion_backtest_def Let_def by simp
qed

lemma entry_rules_range: "pos \<in> {- 1, 0, 1} \<Longrightarrow> entry_rules p e pos \<in> {- 1, 0, 1}"
  by (simp add: entry_rules_def)

lemma exit_rule_range: "pos \<in> {- 1, 0, 1} \<Longrightarrow> exit_rule p x pos \<in> {- 1, 0, 1}"
  by (simp add: exit_rule_def)

lemma position_bt_step:
  "position (bt_step z entry_z exit_z i s) =
     exit_rule (snd (z ! (i - 1))) exit_z (entry_rules (snd (z ! (i - 1))) entry_z (position s))"
  by (simp add: bt_step_def Let_def)

lemma pnl_bt_step:
  "pnl (bt_step z entry_z exit_z i s) =
     pnl s + Fin (of_int (position (bt_step z entry_z exit_z i s))) * (snd (z ! i) - snd (z ! (i - 1)))"
  by (simp add: bt_step_def Let_def)

lemma position_range: "position (bt_run z entry_z exit_z k) \<in> {- 1, 0, 1}"
proof (induction k)
  case 0
  show ?case by (simp add: bt_run_0 bt_init_def)
next
  case (Suc k)
  show ?case
    unfolding bt_run_Suc position_bt_step
    by (rule exit_rule_range, rule entry_rules_range, rule Suc.IH)
qed

lemma timestamps_bt_run:
  "timestamps (bt_run z entry_z exit_z k) = map (\<lambda>i. fst (z ! i)) [1..<Suc k]"
  by (induction k) (simp_all add: bt_run_0 bt_init_def bt_run_Suc bt_step_def Let_def)

lemma equity_bt_run:
  "equity_curve (bt_run z entry_z exit_z k) = map (\<lambda>i. pnl (bt_run z entry_z exit_z i)) [1..<Suc k]"
proof (induction k)
  case 0
  show ?case by (simp add: bt_run_0 bt_init_def)
next
  case (Suc k)
  have "equity_curve (bt_run z entry_z exit_z (Suc k))
          = equity_curve (bt_run z entry_z exit_z k) @ [pnl (bt_run z entry_z exit_z (Suc k))]"
    by (simp add: bt_run_Suc bt_step_def Let_def)
  with Suc.IH show ?case by simp
qed

lemma labels_tl: "map (\<lambda>i. fst (z ! i)) [1..<length z] = map fst (tl z)"
proof (rule nth_equalityI)
  show "length (map (\<lambda>i. fst (z ! i)) [1..<length z]) = length (map fst (tl z))"
    by simp
next
  fix i
  assume "i < length (map (\<lambda>i. fst (z ! i)) [1..<length z])"
  then have i: "i < length z - 1" by simp
  then have "map (\<lambda>i. fst (z ! i)) [1..<length z] ! i = fst (z ! Suc i)"
    by simp
  moreover have "map fst (tl z) ! i = fst (z ! Suc i)"
    using i by (simp add: nth_tl)
  ultimately show "map (\<lambda>i. fst (z ! i)) [1..<length z] ! i = map fst (tl z) ! i"
    by simp
qed

lemma length_timestamps: "length (timestamps (bt_run z entry_z exit_z k)) = k"
  by (simp add: timestamps_bt_run)

lemma length_equity: "length (equity_curve (bt_run z entry_z exit_z k)) = k"
  by (simp add: equity_bt_run)

lemma equity_nth:
  "j < k \<Longrightarrow> equity_curve (bt_run z entry_z exit_z k) ! j = pnl (bt_run z entry_z exit_z (Suc j))"
  by (simp add: equity_bt_run del: upt_Suc)

text \<open>
  C2. In step \<open>i \<ge> 1\<close> over the cleaned sequence, with \<open>prev = z[i-1]\<close>: the entry
  rules give \<open>-1\<close> when \<open>prev > entry_z\<close>, otherwise \<open>+1\<close> when \<open>prev < -entry_z\<close>,
  otherwise the position carried over from step \<open>i-1\<close>; the exit rule then sets the
  position to \<open>0\<close> when \<open>|prev| < exit_z\<close>, whatever the entry rules decided. The
  position is always one of \<open>-1, 0, +1\<close> and starts at \<open>0\<close>.
\<close>

theorem C2_position_state_machine:
  "z = dropna z0 \<and> 1 \<le> i \<and> i < length z \<longrightarrow>
     position (bt_run z entry_z exit_z i) =
       (let prev = snd (z ! (i - 1));
            carried = position (bt_run z entry_z exit_z (i - 1));
            entered = (if prev > entry_z then - 1 else if prev < - entry_z then 1 else carried)
        in if \<bar>prev\<bar> < exit_z then 0 else entered)
     \<and> position (bt_run z entry_z exit_z i) \<in> {- 1, 0, 1}
     \<and> position (bt_run z entry_z exit_z 0) = 0"
proof (intro impI)
  assume a: "z = dropna z0 \<and> 1 \<le> i \<and> i < length z"
  then obtain j where j: "i = Suc j" by (cases i) auto
  have "position (bt_run z entry_z exit_z (Suc j)) =
       (let prev = snd (z ! j);
            carried = position (bt_run z entry_z exit_z j);
            entered = (if prev > entry_z then - 1 else if prev < - entry_z then 1 else carried)
        in if \<bar>prev\<bar> < exit_z then 0 else entered)"
    by (simp add: bt_run_Suc position_bt_step exit_rule_def entry_rules_def Let_def)
  moreover have "position (bt_run z entry_z exit_z 0) = 0"
    by (simp add: bt_run_0 bt_init_def)
  ultimately show "position (bt_run z entry_z exit_z i) =
       (let prev = snd (z ! (i - 1));
            carried = position (bt_run z entry_z exit_z (i - 1));
            entered = (if prev > entry_z then - 1 else if prev < - entry_z then 1 else carried)
        in if \<bar>prev\<bar> < exit_z then 0 else entered)
     \<and> position (bt_run z entry_z exit_z i) \<in> {- 1, 0, 1}
     \<and> position (bt_run z entry_z exit_z 0) = 0"
    using position_range[of z entry_z exit_z i] j by simp
qed

text \<open>
  C10. With \<open>n \<ge> 5\<close> defined observations the equity curve has \<open>n - 1\<close> entries,
  labelled by the timestamps of the 2nd to the \<open>n\<close>-th defined observation; its \<open>k\<close>-th
  entry is the cumulative PnL after step \<open>k\<close>, and its last entry is the returned total.
\<close>

theorem C10_equity_curve:
  "5 \<le> length (dropna z0) \<Longrightarrow>
   (case mean_reversion_backtest z0 entry_z exit_z of (total_pnl, curve) \<Rightarrow>
      length curve = length (dropna z0) - 1
    \<and> map fst curve = map fst (tl (dropna z0))
    \<and> (\<forall>k. 1 \<le> k \<and> k < length (dropna z0) \<longrightarrow>
           snd (curve ! (k - 1)) = pnl (bt_run (dropna z0) entry_z exit_z k))
    \<and> snd (last curve) = total_pnl)"
proof -
  assume n5: "5 \<le> length (dropna z0)"
  define z where "z = dropna z0"
  define m where "m = length z - 1"
  define s where "s = bt_run z entry_z exit_z m"
  define curve where "curve = zip (timestamps s) (equity_curve s)"
  have m: "Suc m = length z" "0 < m"
    using n5 by (simp_all add: m_def z_def)
  have res: "mean_reversion_backtest z0 entry_z exit_z = (pnl s, curve)"
    using mrb_long[OF n5, of entry_z exit_z]
    by (simp add: Let_def z_def m_def s_def curve_def)
  have len: "length curve = m"
    by (simp add: curve_def s_def length_timestamps length_equity)
  have "map fst curve = timestamps s"
    by (simp add: curve_def s_def length_timestamps length_equity)
  also have "\<dots> = map (\<lambda>i. fst (z ! i)) [1..<length z]"
    unfolding s_def timestamps_bt_run m ..
  also have "\<dots> = map fst (tl z)"
    by (rule labels_tl)
  finally have labels: "map fst curve = map fst (tl z)" .
  have entry: "snd (curve ! j) = pnl (bt_run z entry_z exit_z (Suc j))" if "j < m" for j
    using that by (simp add: curve_def s_def length_timestamps length_equity equity_nth)
  have each: "\<forall>k. 1 \<le> k \<and> k < length z \<longrightarrow> snd (curve ! (k - 1)) = pnl (bt_run z entry_z exit_z k)"
  proof (intro allI impI)
    fix k assume k: "1 \<le> k \<and> k < length z"
    then obtain j where j: "k = Suc j" by (cases k) auto
    with k m have "j < m" by simp
    from entry[OF this] show "snd (curve ! (k - 1)) = pnl (bt_run z entry_z exit_z k)"
      by (simp add: j)
  qed
  have "curve \<noteq> []" using len m by auto
  then have "last curve = curve ! (m - 1)"
    by (simp add: last_conv_nth len)
  moreover have "snd (curve ! (m - 1)) = pnl (bt_run z entry_z exit_z (Suc (m - 1)))"
    by (rule entry) (use m in simp)
  ultimately have fin: "snd (last curve) = pnl s"
    using m by (simp add: s_def)
  show ?thesis
    unfolding res z_def[symmetric] using len labels each fin by (simp add: m_def)
qed


lemmas bt_eval =
  mean_reversion_backtest_def bt_run_def dropna_def upt_conv_Cons bt_step_def bt_init_def
  entry_rules_def exit_rule_def float64_ops Let_def

text \<open>
  C3. In step \<open>i \<ge> 1\<close> the PnL grows by the position just determined for the step
  times \<open>z[i] - z[i-1]\<close>; the total returned is the PnL after the last step; and on the
  z-scores \<open>[0, 2.5, 2.5, 0.05, -2.5]\<close> with \<open>entry_z = 2.0\<close>, \<open>exit_z = 0.1\<close> the
  total is \<open>2.45\<close>.
\<close>

theorem C3_pnl_accrual:
  "(z = dropna z0 \<and> 1 \<le> i \<and> i < length z \<longrightarrow>
      pnl (bt_run z entry_z exit_z i) =
        pnl (bt_run z entry_z exit_z (i - 1))
          + Fin (of_int (position (bt_run z entry_z exit_z i))) * (snd (z ! i) - snd (z ! (i - 1))))
   \<and> (5 \<le> length (dropna z0) \<longrightarrow>
        fst (mean_reversion_backtest z0 entry_z exit_z)
          = pnl (bt_run (dropna z0) entry_z exit_z (length (dropna z0) - 1)))
   \<and> fst (mean_reversion_backtest example_z (Fin 2) (Fin 0.1)) = Fin 2.45"
proof (intro conjI impI)
  assume a: "z = dropna z0 \<and> 1 \<le> i \<and> i < length z"
  then obtain j where j: "i = Suc j" by (cases i) auto
  show "pnl (bt_run z entry_z exit_z i) =
        pnl (bt_run z entry_z exit_z (i - 1))
          + Fin (of_int (position (bt_run z entry_z exit_z i))) * (snd (z ! i) - snd (z ! (i - 1)))"
    unfolding j bt_run_Suc
    by (subst pnl_bt_step) simp
next
  assume "5 \<le> length (dropna z0)"
  from mrb_long[OF this, of entry_z exit_z]
  show "fst (mean_reversion_backtest z0 entry_z exit_z)
          = pnl (bt_run (dropna z0) entry_z exit_z (length (dropna z0) - 1))"
    by (simp add: Let_def)
next
  show "fst (mean_reversion_backtest example_z (Fin 2) (Fin 0.1)) = Fin 2.45"
    by (simp add: example_z_def bt_eval)
qed

theorem C3_witness:
  "example_z = dropna example_z \<and> (1::nat) \<le> 3 \<and> 3 < length example_z
   \<and> pnl (bt_run example_z (Fin 2) (Fin 0.1) 2) = Fin 0
   \<and> position (bt_run example_z (Fin 2) (Fin 0.1) 3) = - 1
   \<and> pnl (bt_run example_z (Fin 2) (Fin 0.1) 3) = Fin 0 + Fin (- 1) * (Fin 0.05 - Fin 2.5)
   \<and> pnl (bt_run example_z (Fin 2) (Fin 0.1) 3) = Fin 2.45"
proof -
  have h: "example_z = dropna example_z \<and> (1::nat) \<le> 3 \<and> 3 < length example_z"
    by (simp add: example_z_def dropna_def)
  have p2: "pnl (bt_run example_z (Fin 2) (Fin 0.1) 2) = Fin 0"
    by (simp add: example_z_def bt_eval)
  have q3: "position (bt_run example_z (Fin 2) (Fin 0.1) 3) = - 1"
    by (simp add: example_z_def bt_eval)
  have z3: "snd (example_z ! 3) = Fin 0.05" "snd (example_z ! 2) = Fin 2.5"
    by (simp_all add: example_z_def)
  from C3_pnl_accrual[of example_z example_z 3 "Fin 2" "Fin 0.1"] h
  have "pnl (bt_run example_z (Fin 2) (Fin 0.1) 3) =
        pnl (bt_run example_z (Fin 2) (Fin 0.1) (3 - 1))
          + Fin (of_int (position (bt_run example_z (Fin 2) (Fin 0.1) 3)))
              * (snd (example_z ! 3) - snd (example_z ! (3 - 1)))"
    by blast
  with p2 q3 z3 have e: "pnl (bt_run example_z (Fin 2) (Fin 0.1) 3) = Fin 0 + Fin (- 1) * (Fin 0.05 - Fin 2.5)"
    by simp
  then have "pnl (bt_run example_z (Fin 2) (Fin 0.1) 3) = Fin 2.45"
    by (simp add: float64_ops)
  with h p2 q3 e show ?thesis by blast
qed

theorem C2_witness:
  "example_z = dropna example_z \<and> (1::nat) \<le> 4 \<and> 4 < length example_z
   \<and> position (bt_run example_z (Fin 2) (Fin 0.1) 3) = - 1
   \<and> snd (example_z ! 3) = Fin 0.05
   \<and> position (bt_run example_z (Fin 2) (Fin 0.1) 4) = 0"
proof -
  have h: "example_z = dropna example_z \<and> (1::nat) \<le> 4 \<and> 4 < length example_z"
    by (simp add: example_z_def dropna_def)
  have q3: "position (bt_run example_z (Fin 2) (Fin 0.1) 3) = - 1"
    by (simp add: example_z_def bt_eval)
  have z3: "snd (example_z ! 3) = Fin 0.05"
    by (simp add: example_z_def)
  from C2_position_state_machine[of example_z example_z 4 "Fin 2" "Fin 0.1"] h
  have "position (bt_run example_z (Fin 2) (Fin 0.1) 4) =
       (let prev = snd (example_z ! (4 - 1));
            carried = position (bt_run example_z (Fin 2) (Fin 0.1) (4 - 1));
            entered = (if prev > Fin 2 then - 1 else if prev < - Fin 2 then 1 else carried)
        in if \<bar>prev\<bar> < Fin 0.1 then 0 else entered)"
    by blast
  with z3 q3 have "position (bt_run example_z (Fin 2) (Fin 0.1) 4) = 0"
    by (simp add: float64_ops Let_def)
  with h q3 z3 show ?thesis by blast
qed

theorem C10_witness:
  "5 \<le> length (dropna example_z)
   \<and> mean_reversion_backtest example_z (Fin 2) (Fin 0.1)
       = (Fin 2.45, [(1, Fin 0), (2, Fin 0), (3, Fin 2.45), (4, Fin 2.45)])
   \<and> length (snd (mean_reversion_backtest example_z (Fin 2) (Fin 0.1))) = length (dropna example_z) - 1
   \<and> snd (last (snd (mean_reversion_backtest example_z (Fin 2) (Fin 0.1))))
       = fst (mean_reversion_backtest example_z (Fin 2) (Fin 0.1))"
proof -
  have h: "5 \<le> length (dropna example_z)"
    by (simp add: example_z_def dropna_def)
  have r: "mean_reversion_backtest example_z (Fin 2) (Fin 0.1)
       = (Fin 2.45, [(1, Fin 0), (2, Fin 0), (3, Fin 2.45), (4, Fin 2.45)])"
    by (simp add: example_z_def bt_eval)
  from C10_equity_curve[OF h, of "Fin 2" "Fin 0.1"]
  have "length (snd (mean_reversion_backtest example_z (Fin 2) (Fin 0.1))) = length (dropna example_z) - 1
   \<and> snd (last (snd (mean_reversion_backtest example_z (Fin 2) (Fin 0.1))))
       = fst (mean_reversion_backtest example_z (Fin 2) (Fin 0.1))"
    by (simp add: case_prod_beta)
  with h r show ?thesis by blast
qed

section \<open>Properties of the alert engine\<close>

lemma dropna_Nil_iff: "dropna s = [] \<longleftrightarrow> (\<forall>p \<in> set s. snd p = NaN)"
proof -
  have "\<And>v. isnan v = (v = NaN)"
    by (case_tac v) simp_all
  then show ?thesis
    by (auto simp: dropna_def filter_empty_conv)
qed

lemma dropna_nonempty: "dropna s \<noteq> [] \<Longrightarrow> s \<noteq> []"
  by (auto simp: dropna_def)

lemma last_dropna:
  assumes "s \<noteq> []" "\<not> isnan (snd (last s))"
  shows "last (dropna s) = last s"
proof -
  from assms(1) obtain ys y where s: "s = ys @ [y]"
    by (cases s rule: rev_cases) auto
  with assms(2) show ?thesis
    by (simp add: dropna_def)
qed

lemma check_last:
  "dropna z \<noteq> [] \<Longrightarrow> check z threshold = Inr (\<bar>snd (last z)\<bar> > threshold)"
  by (frule dropna_nonempty) (simp add: check_def iloc_last_def)

lemma check_spread_last:
  "dropna z \<noteq> [] \<Longrightarrow> check_spread z threshold = Inr (\<bar>snd (last z)\<bar> > threshold)"
  by (frule dropna_nonempty) (simp add: check_spread_def iloc_last_def)

lemma check_corr_last:
  "dropna z \<noteq> [] \<Longrightarrow> check_correlation_drop z threshold = Inr (snd (last z) < threshold)"
  by (frule dropna_nonempty) (simp add: check_correlation_drop_def iloc_last_def)

lemma nan_never: "\<not> (\<bar>NaN\<bar> > t)" "\<not> (NaN < t)"
  by (simp_all add: float64_ops)

text \<open>
  C4, as stated, fails: a series whose last value is missing but which has an earlier
  defined value beyond the threshold does not trigger. Here the latest defined z is
  \<open>3 > 2\<close>, and \<open>check\<close> answers False.
\<close>

theorem C4_counterexample:
  "latest_defined stale_z = Some (Fin 3) \<and> \<bar>Fin 3\<bar> > Fin 2 \<and> check stale_z (Fin 2) = Inr False"
  by (simp add: latest_defined_def stale_z_def dropna_def check_def iloc_last_def float64_ops)

text \<open>
  C4, amended. Each condition is evaluated against the value at the last position of its
  series: for a series with at least one defined value, the z-score and spread-width
  alerts trigger iff the absolute value of the last value exceeds the threshold, the
  correlation-drop alert iff the last value is below the threshold. A missing last value
  never triggers; a defined last value is the latest defined value of the series.
\<close>

theorem C4_alerts_use_last_position:
  "dropna s \<noteq> [] \<Longrightarrow>
     check s t = Inr (\<bar>snd (last s)\<bar> > t)
   \<and> check_spread s t = Inr (\<bar>snd (last s)\<bar> > t)
   \<and> check_correlation_drop s t = Inr (snd (last s) < t)
   \<and> (isnan (snd (last s)) \<longrightarrow>
         check s t = Inr False \<and> check_spread s t = Inr False
         \<and> check_correlation_drop s t = Inr False)
   \<and> (\<not> isnan (snd (last s)) \<longrightarrow> latest_defined s = Some (snd (last s)))"
proof -
  assume d: "dropna s \<noteq> []"
  have nan: "isnan (snd (last s)) \<longrightarrow>
         check s t = Inr False \<and> check_spread s t = Inr False
         \<and> check_correlation_drop s t = Inr False"
  proof
    assume "isnan (snd (last s))"
    then have "snd (last s) = NaN" by (cases "snd (last s)") simp_all
    then show "check s t = Inr False \<and> check_spread s t = Inr False
         \<and> check_correlation_drop s t = Inr False"
      using check_last[OF d, of t] check_spread_last[OF d, of t] check_corr_last[OF d, of t]
      by (simp add: nan_never)
  qed
  have def: "\<not> isnan (snd (last s)) \<longrightarrow> latest_defined s = Some (snd (last s))"
    using d last_dropna[OF dropna_nonempty[OF d]] by (simp add: latest_defined_def)
  from check_last[OF d, of t] check_spread_last[OF d, of t] check_corr_last[OF d, of t] nan def
  show ?thesis by blast
qed

theorem C4_witness:
  "dropna [(0::nat, NaN), (1, Fin 1), (2, Fin (- 3))] \<noteq> []
   \<and> check [(0::nat, NaN), (1, Fin 1), (2, Fin (- 3))] (Fin 2) = Inr True
   \<and> check_correlation_drop [(0::nat, NaN), (1, Fin 1), (2, Fin (- 3))] (Fin 2) = Inr True
   \<and> latest_defined [(0::nat, NaN), (1, Fin 1), (2, Fin (- 3))] = Some (Fin (- 3))"
proof -
  have d: "dropna [(0::nat, NaN), (1, Fin 1), (2, Fin (- 3))] \<noteq> []"
    by (simp add: dropna_def)
  from C4_alerts_use_last_position[OF d, of "Fin 2"] d show ?thesis
    by (simp add: float64_ops)
qed

lemma all_missing_dropna: "all_missing s \<Longrightarrow> dropna s = []"
  by (simp add: all_missing_def dropna_def list_all_iff filter_empty_conv)

lemma check_eq:
  "check z t = Inr (dropna z \<noteq> [] \<and> \<bar>snd (last z)\<bar> > t)"
  using check_last[of z t] by (cases "dropna z = []") (simp_all add: check_def)

lemma check_spread_eq:
  "check_spread z t = Inr (dropna z \<noteq> [] \<and> \<bar>snd (last z)\<bar> > t)"
  using check_spread_last[of z t] by (cases "dropna z = []") (simp_all add: check_spread_def)

lemma check_corr_eq:
  "check_correlation_drop z t = Inr (dropna z \<noteq> [] \<and> snd (last z) < t)"
  using check_corr_last[of z t] by (cases "dropna z = []") (simp_all add: check_correlation_drop_def)

lemma append_if_eq:
  "append_if (Inr (dropna s \<noteq> [] \<and> b)) name s t =
     Inr (if dropna s \<noteq> [] \<and> b then [(name, snd (last s), t)] else [])"
proof (cases "dropna s = []")
  case True
  then show ?thesis by (simp add: append_if_def)
next
  case False
  then have "s \<noteq> []" by (rule dropna_nonempty)
  with False show ?thesis by (simp add: append_if_def iloc_last_def)
qed

lemma check_all_eq:
  "check_all z z_thresh spread spread_thresh corr corr_thresh =
     Inr (z_alerts z z_thresh @ spread_alerts spread spread_thresh @ corr_alerts corr corr_thresh)"
proof -
  have a1: "append_if (check z z_thresh) ''Z-Score'' z z_thresh = Inr (z_alerts z z_thresh)"
    unfolding check_eq append_if_eq z_alerts_def ..
  have a2: "(case (spread, spread_thresh) of
               (Some s, Some t) \<Rightarrow> append_if (check_spread s t) ''Spread Width'' s t
             | _ \<Rightarrow> Inr []) = Inr (spread_alerts spread spread_thresh)"
    by (simp add: check_spread_eq append_if_eq spread_alerts_def split: option.splits)
  have a3: "(case (corr, corr_thresh) of
               (Some c, Some t) \<Rightarrow> append_if (check_correlation_drop c t) ''Correlation Drop'' c t
             | _ \<Rightarrow> Inr []) = Inr (corr_alerts corr corr_thresh)"
    by (simp add: check_corr_eq append_if_eq corr_alerts_def split: option.splits)
  show ?thesis
    unfolding check_all_def a1 a2 a3 by simp
qed

lemma names_z: "fst ` set (z_alerts z t) \<subseteq> {''Z-Score''}"
  by (auto simp: z_alerts_def)

lemma names_spread: "fst ` set (spread_alerts s t) \<subseteq> {''Spread Width''}"
  by (auto simp: spread_alerts_def split: option.splits if_splits)

lemma names_corr: "fst ` set (corr_alerts s t) \<subseteq> {''Correlation Drop''}"
  by (auto simp: corr_alerts_def split: option.splits if_splits)

text \<open>
  C8. On a series all of whose values are missing, each of the three checks returns
  False and raises nothing; \<open>check_all\<close> then returns a list with no alert for that
  metric, and the empty list when every supplied series is all missing.
\<close>

theorem C8_all_missing_never_triggers:
  "all_missing s \<Longrightarrow>
     check s t = Inr False \<and> check_spread s t = Inr False \<and> check_correlation_drop s t = Inr False
   \<and> (\<exists>alerts. check_all s t spread spread_thresh corr corr_thresh = Inr alerts \<and> ''Z-Score'' \<notin> fst ` set alerts)
   \<and> (\<exists>alerts. check_all z z_thresh (Some s) spread_thresh corr corr_thresh = Inr alerts \<and> ''Spread Width'' \<notin> fst ` set alerts)
   \<and> (\<exists>alerts. check_all z z_thresh spread spread_thresh (Some s) corr_thresh = Inr alerts \<and> ''Correlation Drop'' \<notin> fst ` set alerts)
   \<and> check_all s t (Some s) spread_thresh (Some s) corr_thresh = Inr []
   \<and> check_all s t None spread_thresh None corr_thresh = Inr []"
proof -
  assume "all_missing s"
  then have d: "dropna s = []" by (rule all_missing_dropna)
  have c: "check s t = Inr False \<and> check_spread s t = Inr False \<and> check_correlation_drop s t = Inr False"
    by (simp add: check_eq check_spread_eq check_corr_eq d)
  have z0: "z_alerts s t = []" by (simp add: z_alerts_def d)
  have s0: "spread_alerts (Some s) spread_thresh = []" by (simp add: spread_alerts_def d split: option.splits)
  have c0: "corr_alerts (Some s) corr_thresh = []" by (simp add: corr_alerts_def d split: option.splits)
  have n0: "spread_alerts None spread_thresh = []" "corr_alerts None corr_thresh = []"
    by (simp_all add: spread_alerts_def corr_alerts_def)
  have e1: "\<exists>alerts. check_all s t spread spread_thresh corr corr_thresh = Inr alerts \<and> ''Z-Score'' \<notin> fst ` set alerts"
    using names_spread[of spread spread_thresh] names_corr[of corr corr_thresh]
    by (auto simp: check_all_eq z0)
  have e2: "\<exists>alerts. check_all z z_thresh (Some s) spread_thresh corr corr_thresh = Inr alerts \<and> ''Spread Width'' \<notin> fst ` set alerts"
    using names_z[of z z_thresh] names_corr[of corr corr_thresh]
    by (auto simp: check_all_eq s0)
  have e3: "\<exists>alerts. check_all z z_thresh spread spread_thresh (Some s) corr_thresh = Inr alerts \<and> ''Correlation Drop'' \<notin> fst ` set alerts"
    using names_z[of z z_thresh] names_spread[of spread spread_thresh]
    by (auto simp: check_all_eq c0)
  have e4: "check_all s t (Some s) spread_thresh (Some s) corr_thresh = Inr []"
    by (simp add: check_all_eq z0 s0 c0)
  have e5: "check_all s t None spread_thresh None corr_thresh = Inr []"
    by (simp add: check_all_eq z0 n0)
  from c e1 e2 e3 e4 e5 show ?thesis by blast
qed

theorem C8_witness:
  "all_missing [(0::nat, NaN), (1, NaN)]
   \<and> check [(0::nat, NaN), (1, NaN)] (Fin 2) = Inr False
   \<and> check_all [(0::nat, NaN), (1, NaN)] (Fin 2) (Some [(0, NaN), (1, NaN)]) (Some (Fin 5))
        (Some [(0, NaN), (1, NaN)]) (Some (Fin 0.5)) = Inr []"
proof -
  have h: "all_missing [(0::nat, NaN), (1, NaN)]"
    by (simp add: all_missing_def)
  from C8_all_missing_never_triggers[OF h, of "Fin 2" _ "Some (Fin 5)" _ "Some (Fin 0.5)"] h
  show ?thesis by blast
qed

section \<open>Properties of the adaptive hedge ratio\<close>

lemma kalman_loop_snoc:
  "kalman_loop y x Q R (ts @ [t]) s =
     (case kalman_loop y x Q R ts s of
        Inl err \<Rightarrow> Inl err
      | Inr s' \<Rightarrow> kalman_step y x Q R t s')"
  by (induction ts arbitrary: s) (auto split: sum.splits)

lemma kalman_loop_prefix:
  "k \<le> length x \<Longrightarrow> k \<le> length y \<Longrightarrow>
   kalman_loop y x Q R [0..<k] (kf_init (length y)) = Inr (kf_after y x Q R k)"
proof (induction k)
  case 0
  show ?case by simp
next
  case (Suc k)
  then have "kalman_loop y x Q R [0..<k] (kf_init (length y)) = Inr (kf_after y x Q R k)"
    by simp
  moreover have "kalman_step y x Q R k s = Inr (kalman_update Q R k (snd (x ! k)) (snd (y ! k)) s)" for s
    using Suc.prems by (simp add: kalman_step_def iloc_def)
  ultimately show ?case
    by (simp add: kalman_loop_snoc)
qed

lemma length_kf_after: "length (kf_hr (kf_after y x Q R k)) = length y"
  by (induction k) (simp_all add: kf_init_def kalman_update_def Let_def)

lemma kf_hr_written:
  "kf_hr (kf_after y x Q R (Suc t)) ! t =
     (if t > 0 then
        kf_hr (kf_after y x Q R t) ! (t - 1)
          + kalman_gain (predict t (kf_P (kf_after y x Q R t)) Q) (snd (x ! t)) R
              * (snd (y ! t) - kf_hr (kf_after y x Q R t) ! (t - 1) * snd (x ! t))
      else Fin 0)" if "t < length y"
  using that by (simp add: kalman_update_def Let_def length_kf_after)

lemma kf_P_written:
  "kf_P (kf_after y x Q R (Suc t)) =
     (Fin 1 - kalman_gain (predict t (kf_P (kf_after y x Q R t)) Q) (snd (x ! t)) R * snd (x ! t))
       * predict t (kf_P (kf_after y x Q R t)) Q"
  by (simp add: kalman_update_def Let_def)

lemma kf_hr_kept:
  "t < j \<Longrightarrow> j \<le> k \<Longrightarrow> kf_hr (kf_after y x Q R k) ! t = kf_hr (kf_after y x Q R j) ! t"
proof (induction k)
  case 0
  then show ?case by simp
next
  case (Suc k)
  show ?case
  proof (cases "j = Suc k")
    case True
    then show ?thesis by simp
  next
    case False
    with Suc.prems have "j \<le> k" by simp
    with Suc have "kf_hr (kf_after y x Q R k) ! t = kf_hr (kf_after y x Q R j) ! t"
      by simp
    moreover have "t \<noteq> k" using Suc.prems \<open>j \<le> k\<close> by simp
    ultimately show ?thesis
      by (simp add: kalman_update_def Let_def)
  qed
qed

lemma py_truediv_ok:
  "delta \<noteq> Fin 1 \<Longrightarrow> py_truediv delta (Fin 1 - delta) = Inr (delta / (Fin 1 - delta))"
  by (cases delta) (simp_all add: py_truediv_def float64_ops)

lemma kalman_hedge_ratio_ok:
  assumes "length x = length y" "delta \<noteq> Fin 1"
  shows "kalman_hedge_ratio y x delta R =
           Inr (kf_hr (kf_after y x (delta / (Fin 1 - delta)) R (length y)))"
  using assms
  by (simp add: kalman_hedge_ratio_def py_truediv_ok kalman_loop_prefix Let_def)

text \<open>
  C1, as stated, fails for \<open>delta = 1\<close>: \<open>Q = delta / (1 - delta)\<close> divides two Python
  floats, and the zero divisor raises ZeroDivisionError before the loop starts.
\<close>

theorem C1_counterexample:
  "kalman_hedge_ratio [(0::nat, Fin 1), (1, Fin 2)] [(0::nat, Fin 1), (1, Fin 2)] (Fin 1) (Fin 0.01)
     = Inl ZeroDivisionError"
  by (simp add: kalman_hedge_ratio_def py_truediv_def float64_ops)

text \<open>
  C1, amended. For equal-length series and every \<open>delta\<close> other than \<open>1\<close>, the function
  returns one ratio per observation, and the ratios \<open>hr\<close> together with the values \<open>Ps\<close>
  of \<open>P\<close> at the end of each step satisfy the recursion: with \<open>Q = delta/(1-delta)\<close> and
  \<open>P = 1\<close> initially, step \<open>0\<close> skips the inflation, sets \<open>h[0] = 0\<close> and updates \<open>P\<close>
  with the gain; each step \<open>t > 0\<close> inflates \<open>P\<close> to \<open>P + Q\<close>, takes the innovation
  \<open>e = y[t] - h[t-1]*x[t]\<close> and the gain \<open>K = P*x[t] / (x[t]^2*P + R)\<close>, and sets
  \<open>h[t] = h[t-1] + K*e\<close>, \<open>P = (1 - K*x[t])*P\<close>.
\<close>

theorem C1_kalman_recursion:
  "length x = length y \<Longrightarrow> delta \<noteq> Fin 1 \<Longrightarrow>
   (\<exists>hr Ps.
      kalman_hedge_ratio y x delta R = Inr hr
    \<and> length hr = length y \<and> length Ps = length y
    \<and> (y \<noteq> [] \<longrightarrow>
         (let P = Fin 1;
              x_t = snd (x ! 0);
              K = P * x_t / (x_t * x_t * P + R)
          in hr ! 0 = Fin 0 \<and> Ps ! 0 = (Fin 1 - K * x_t) * P))
    \<and> (\<forall>t. 0 < t \<and> t < length y \<longrightarrow>
         (let Q = delta / (Fin 1 - delta);
              P = Ps ! (t - 1) + Q;
              x_t = snd (x ! t);
              e = snd (y ! t) - hr ! (t - 1) * x_t;
              K = P * x_t / (x_t * x_t * P + R)
          in hr ! t = hr ! (t - 1) + K * e \<and> Ps ! t = (Fin 1 - K * x_t) * P)))"
proof -
  assume len: "length x = length y" and d: "delta \<noteq> Fin 1"
  define Q where "Q = delta / (Fin 1 - delta)"
  define n where "n = length y"
  define st where "st = kf_after y x Q R"
  define hr where "hr = kf_hr (st n)"
  define Ps where "Ps = map (\<lambda>t. kf_P (st (Suc t))) [0..<n]"
  have res: "kalman_hedge_ratio y x delta R = Inr hr"
    using kalman_hedge_ratio_ok[OF len d, of R] by (simp add: hr_def st_def Q_def n_def)
  have lh: "length hr = length y"
    by (simp add: hr_def st_def length_kf_after)
  have lp: "length Ps = length y"
    by (simp add: Ps_def n_def)
  have hr_at: "hr ! t = kf_hr (st (Suc t)) ! t" if "t < n" for t
    unfolding hr_def st_def using that by (intro kf_hr_kept) simp_all
  have Ps_at: "Ps ! t = kf_P (st (Suc t))" if "t < n" for t
    using that by (simp add: Ps_def del: upt_Suc)
  have first: "y \<noteq> [] \<longrightarrow>
         (let P = Fin 1;
              x_t = snd (x ! 0);
              K = P * x_t / (x_t * x_t * P + R)
          in hr ! 0 = Fin 0 \<and> Ps ! 0 = (Fin 1 - K * x_t) * P)"
  proof
    assume "y \<noteq> []"
    then have n0: "0 < n" by (simp add: n_def)
    have "hr ! 0 = Fin 0"
      using hr_at[OF n0] kf_hr_written[of 0 y x Q R] n0 by (simp add: st_def n_def)
    moreover have "Ps ! 0 = (Fin 1 - kalman_gain (Fin 1) (snd (x ! 0)) R * snd (x ! 0)) * Fin 1"
      using Ps_at[OF n0] kf_P_written[of y x Q R 0]
      by (simp add: st_def predict_def kf_init_def)
    ultimately show "let P = Fin 1;
              x_t = snd (x ! 0);
              K = P * x_t / (x_t * x_t * P + R)
          in hr ! 0 = Fin 0 \<and> Ps ! 0 = (Fin 1 - K * x_t) * P"
      by (simp add: Let_def kalman_gain_def)
  qed
  have later: "\<forall>t. 0 < t \<and> t < length y \<longrightarrow>
         (let Q = delta / (Fin 1 - delta);
              P = Ps ! (t - 1) + Q;
              x_t = snd (x ! t);
              e = snd (y ! t) - hr ! (t - 1) * x_t;
              K = P * x_t / (x_t * x_t * P + R)
          in hr ! t = hr ! (t - 1) + K * e \<and> Ps ! t = (Fin 1 - K * x_t) * P)"
  proof (intro allI impI)
    fix t assume t: "0 < t \<and> t < length y"
    then obtain j where j: "t = Suc j" by (cases t) auto
    from t have tn: "t < n" and jn: "j < n" by (simp_all add: n_def j)
    have prevh: "kf_hr (st t) ! (t - 1) = hr ! (t - 1)"
      using hr_at[OF jn] by (simp add: j)
    have prevP: "kf_P (st t) = Ps ! (t - 1)"
      using Ps_at[OF jn] by (simp add: j)
    have pr: "predict t (kf_P (st t)) Q = Ps ! (t - 1) + Q"
      using t by (simp add: predict_def prevP)
    have h: "hr ! t = hr ! (t - 1)
               + kalman_gain (Ps ! (t - 1) + Q) (snd (x ! t)) R
                   * (snd (y ! t) - hr ! (t - 1) * snd (x ! t))"
      using hr_at[OF tn] kf_hr_written[of t y x Q R] t pr prevh
      by (simp add: st_def)
    have P: "Ps ! t = (Fin 1 - kalman_gain (Ps ! (t - 1) + Q) (snd (x ! t)) R * snd (x ! t))
                        * (Ps ! (t - 1) + Q)"
      using Ps_at[OF tn] kf_P_written[of y x Q R t] pr
      by (simp add: st_def)
    from h P show "let Q = delta / (Fin 1 - delta);
              P = Ps ! (t - 1) + Q;
              x_t = snd (x ! t);
              e = snd (y ! t) - hr ! (t - 1) * x_t;
              K = P * x_t / (x_t * x_t * P + R)
          in hr ! t = hr ! (t - 1) + K * e \<and> Ps ! t = (Fin 1 - K * x_t) * P"
      by (simp add: Let_def kalman_gain_def Q_def)
  qed
  from res lh lp first later show ?thesis by blast
qed

theorem C1_witness:
  "length example_x = length example_y \<and> Fin 0.5 \<noteq> Fin 1
   \<and> (\<exists>hr. kalman_hedge_ratio example_y example_x (Fin 0.5) (Fin 1) = Inr hr
         \<and> length hr = 2 \<and> hr ! 0 = Fin 0 \<and> hr ! 1 = Fin 1.2)"
proof -
  have len: "length example_x = length example_y"
    by (simp add: example_x_def example_y_def)
  have d: "Fin 0.5 \<noteq> Fin 1" by simp
  from C1_kalman_recursion[OF len d, of "Fin 1"]
  obtain hr Ps where
    res: "kalman_hedge_ratio example_y example_x (Fin 0.5) (Fin 1) = Inr hr" and
    lh: "length hr = length example_y" and
    first: "example_y \<noteq> [] \<longrightarrow>
         (let P = Fin 1;
              x_t = snd (example_x ! 0);
              K = P * x_t / (x_t * x_t * P + Fin 1)
          in hr ! 0 = Fin 0 \<and> Ps ! 0 = (Fin 1 - K * x_t) * P)" and
    later: "\<forall>t. 0 < t \<and> t < length example_y \<longrightarrow>
         (let Q = Fin 0.5 / (Fin 1 - Fin 0.5);
              P = Ps ! (t - 1) + Q;
              x_t = snd (example_x ! t);
              e = snd (example_y ! t) - hr ! (t - 1) * x_t;
              K = P * x_t / (x_t * x_t * P + Fin 1)
          in hr ! t = hr ! (t - 1) + K * e \<and> Ps ! t = (Fin 1 - K * x_t) * P)"
    by blast
  from first have h0: "hr ! 0 = Fin 0" and p0: "Ps ! 0 = Fin 0.5"
    by (simp_all add: example_x_def example_y_def Let_def float64_ops)
  from later have "0 < (1::nat) \<and> 1 < length example_y \<longrightarrow>
         (let Q = Fin 0.5 / (Fin 1 - Fin 0.5);
              P = Ps ! (1 - 1) + Q;
              x_t = snd (example_x ! 1);
              e = snd (example_y ! 1) - hr ! (1 - 1) * x_t;
              K = P * x_t / (x_t * x_t * P + Fin 1)
          in hr ! 1 = hr ! (1 - 1) + K * e \<and> Ps ! 1 = (Fin 1 - K * x_t) * P)"
    by blast
  with h0 p0 have h1: "hr ! 1 = Fin 1.2"
    by (simp add: example_x_def example_y_def Let_def float64_ops)
  from lh have "length hr = 2" by (simp add: example_y_def)
  with len d res h0 h1 show ?thesis by blast
qed

lemma isfinite_iff: "isfinite a \<longleftrightarrow> (\<exists>r. a = Fin r)"
  by (cases a) simp_all

lemma Q_finite:
  "isfinite delta \<Longrightarrow> delta \<noteq> Fin 1 \<Longrightarrow> isfinite (delta / (Fin 1 - delta))"
  by (auto simp: isfinite_iff float64_ops)

lemma predict_finite: "isfinite P \<Longrightarrow> isfinite Q \<Longrightarrow> isfinite (predict t P Q)"
  by (auto simp: isfinite_iff predict_def float64_ops)

lemma gain_zero:
  "isfinite P \<Longrightarrow> isfinite R \<Longrightarrow> R \<noteq> Fin 0 \<Longrightarrow> kalman_gain P (Fin 0) R = Fin 0"
proof -
  assume "isfinite P" "isfinite R" "R \<noteq> Fin 0"
  then obtain p r where "P = Fin p" "R = Fin r" "r \<noteq> 0"
    by (auto simp: isfinite_iff)
  then show ?thesis
    by (simp add: kalman_gain_def float64_ops)
qed

lemma gain_unguarded: "kalman_gain P (Fin 0) (Fin 0) = NaN"
  by (cases P) (simp_all add: kalman_gain_def float64_ops)

lemma update_zero:
  assumes "kf_hr s = replicate n (Fin 0)" "isfinite (kf_P s)" "t < n"
    and "isfinite Q" "isfinite R" "R \<noteq> Fin 0" "isfinite y_t"
  shows "kf_hr (kalman_update Q R t (Fin 0) y_t s) = replicate n (Fin 0)
         \<and> isfinite (kf_P (kalman_update Q R t (Fin 0) y_t s))"
proof -
  define P where "P = predict t (kf_P s) Q"
  have Pf: "isfinite P"
    unfolding P_def using assms(2,4) by (rule predict_finite)
  have K: "kalman_gain P (Fin 0) R = Fin 0"
    using Pf assms(5,6) by (rule gain_zero)
  have prev: "0 < t \<Longrightarrow> kf_hr s ! (t - 1) = Fin 0"
    using assms(1,3) by simp
  obtain v where v: "y_t = Fin v"
    using assms(7) by (auto simp: isfinite_iff)
  have upd: "(replicate n (Fin 0 :: float64))[t := Fin 0] = replicate n (Fin 0)"
    using assms(3) by (simp add: list_eq_iff_nth_eq nth_list_update)
  have K': "kalman_gain (predict t (kf_P s) Q) (Fin 0) R = Fin 0"
    using K by (simp add: P_def)
  have "kf_hr (kalman_update Q R t (Fin 0) y_t s) = (kf_hr s)[t := Fin 0]"
  proof (cases "0 < t")
    case True
    with prev have "kf_hr s ! (t - 1) = Fin 0" by simp
    with True show ?thesis
      by (simp add: kalman_update_def Let_def K' v float64_ops)
  next
    case False
    then show ?thesis
      by (simp add: kalman_update_def Let_def)
  qed
  then have hr: "kf_hr (kalman_update Q R t (Fin 0) y_t s) = replicate n (Fin 0)"
    by (simp add: assms(1) upd)
  have "kf_P (kalman_update Q R t (Fin 0) y_t s) = (Fin 1 - Fin 0 * Fin 0) * P"
    unfolding kalman_update_def Let_def P_def[symmetric] K by simp
  then have "isfinite (kf_P (kalman_update Q R t (Fin 0) y_t s))"
    using Pf by (auto simp: isfinite_iff float64_ops)
  with hr show ?thesis by simp
qed

lemma kf_after_zero:
  assumes "list_all (\<lambda>p. snd p = Fin 0) x" "list_all (\<lambda>p. isfinite (snd p)) y"
    and "length x = length y" "isfinite Q" "isfinite R" "R \<noteq> Fin 0"
  shows "k \<le> length y \<Longrightarrow>
         kf_hr (kf_after y x Q R k) = replicate (length y) (Fin 0)
         \<and> isfinite (kf_P (kf_after y x Q R k))"
proof (induction k)
  case 0
  show ?case by (simp add: kf_init_def)
next
  case (Suc k)
  then have k: "k < length y" by simp
  with assms(1,3) have xk: "snd (x ! k) = Fin 0"
    by (simp add: list_all_length)
  from k assms(2) have yk: "isfinite (snd (y ! k))"
    by (simp add: list_all_length)
  from Suc have IH: "kf_hr (kf_after y x Q R k) = replicate (length y) (Fin 0)"
    "isfinite (kf_P (kf_after y x Q R k))"
    by simp_all
  from update_zero[OF IH k assms(4,5,6) yk] show ?case
    by (simp add: xk)
qed

text \<open>
  C9, as stated, fails: the gain division has no guard. With \<open>x = 0\<close> throughout and
  \<open>R = 0\<close> the gain is \<open>0/0\<close>, that is NaN, and the estimates after the first are NaN.
\<close>

theorem C9_counterexample:
  "kalman_hedge_ratio [(0::nat, Fin 1), (1, Fin 1)] [(0::nat, Fin 0), (1, Fin 0)] (Fin 0.0001) (Fin 0)
     = Inr [Fin 0, NaN]
   \<and> kalman_gain (Fin 1) (Fin 0) (Fin 0) = NaN"
  by (simp add: kalman_hedge_ratio_def py_truediv_def upt_conv_Cons kalman_step_def iloc_def
      kalman_update_def kalman_gain_def predict_def kf_init_def Let_def float64_ops)

text \<open>
  C9, amended. When \<open>x[t] = 0\<close> for all \<open>t\<close>, every \<open>y[t]\<close> is finite, \<open>delta\<close> is finite
  and not \<open>1\<close>, and \<open>R\<close> is finite and not \<open>0\<close>, the call returns (no exception), the
  gain is \<open>0\<close> at every step and every output element is \<open>0\<close>. The division is not
  guarded: for \<open>x = 0\<close> and \<open>R = 0\<close> the gain is NaN whatever \<open>P\<close> is.
\<close>

theorem C9_zero_regressor:
  assumes "list_all (\<lambda>p. snd p = Fin 0) x" and "list_all (\<lambda>p. isfinite (snd p)) y"
    and "length x = length y"
    and "isfinite delta" and "delta \<noteq> Fin 1" and "isfinite R" and "R \<noteq> Fin 0"
  shows "kalman_hedge_ratio y x delta R = Inr (replicate (length y) (Fin 0))
       \<and> (\<forall>t. t < length y \<longrightarrow>
            (\<exists>s. kalman_loop y x (delta / (Fin 1 - delta)) R [0..<t] (kf_init (length y)) = Inr s
                 \<and> kalman_gain (predict t (kf_P s) (delta / (Fin 1 - delta))) (snd (x ! t)) R = Fin 0))
       \<and> (\<forall>P. kalman_gain P (Fin 0) (Fin 0) = NaN)"
proof -
  define Q where "Q = delta / (Fin 1 - delta)"
  have Qf: "isfinite Q"
    unfolding Q_def using assms(4,5) by (rule Q_finite)
  note inv = kf_after_zero[OF assms(1,2,3) Qf assms(6,7)]
  have res: "kalman_hedge_ratio y x delta R = Inr (replicate (length y) (Fin 0))"
    using kalman_hedge_ratio_ok[OF assms(3,5), of R] inv[of "length y"]
    by (simp add: Q_def)
  have gains: "\<forall>t. t < length y \<longrightarrow>
            (\<exists>s. kalman_loop y x Q R [0..<t] (kf_init (length y)) = Inr s
                 \<and> kalman_gain (predict t (kf_P s) Q) (snd (x ! t)) R = Fin 0)"
  proof (intro allI impI)
    fix t assume t: "t < length y"
    then have loop: "kalman_loop y x Q R [0..<t] (kf_init (length y)) = Inr (kf_after y x Q R t)"
      using assms(3) by (intro kalman_loop_prefix) simp_all
    from t inv[of t] have "isfinite (kf_P (kf_after y x Q R t))" by simp
    then have "isfinite (predict t (kf_P (kf_after y x Q R t)) Q)"
      using Qf by (rule predict_finite)
    then have "kalman_gain (predict t (kf_P (kf_after y x Q R t)) Q) (Fin 0) R = Fin 0"
      using assms(6,7) by (rule gain_zero)
    moreover have "snd (x ! t) = Fin 0"
      using t assms(1,3) by (simp add: list_all_length)
    ultimately show "\<exists>s. kalman_loop y x Q R [0..<t] (kf_init (length y)) = Inr s
                 \<and> kalman_gain (predict t (kf_P s) Q) (snd (x ! t)) R = Fin 0"
      using loop by simp
  qed
  from res gains gain_unguarded show ?thesis
    unfolding Q_def by blast
qed

theorem C9_witness:
  "list_all (\<lambda>p. snd p = Fin 0) flat_x \<and> list_all (\<lambda>p. isfinite (snd p)) flat_y
   \<and> length flat_x = length flat_y
   \<and> isfinite (Fin 0.0001) \<and> Fin 0.0001 \<noteq> Fin 1 \<and> isfinite (Fin 0.01) \<and> Fin 0.01 \<noteq> Fin 0
   \<and> kalman_hedge_ratio flat_y flat_x (Fin 0.0001) (Fin 0.01) = Inr [Fin 0, Fin 0, Fin 0]"
proof -
  have h: "list_all (\<lambda>p. snd p = Fin 0) flat_x" "list_all (\<lambda>p. isfinite (snd p)) flat_y"
    "length flat_x = length flat_y"
    "isfinite (Fin 0.0001)" "Fin 0.0001 \<noteq> Fin 1" "isfinite (Fin 0.01)" "Fin 0.01 \<noteq> Fin 0"
    by (simp_all add: flat_x_def flat_y_def)
  have r: "replicate (length flat_y) (Fin 0) = [Fin 0, Fin 0, Fin 0]"
    by (simp add: flat_y_def numeral_3_eq_3)
  from C9_zero_regressor[OF h]
  have "kalman_hedge_ratio flat_y flat_x (Fin 0.0001) (Fin 0.01) = Inr (replicate (length flat_y) (Fin 0))"
    by blast
  with r h show ?thesis by simp
qed

section \<open>Properties of the static hedge ratio\<close>

lemma check_X_y_column:
  "check_X_y (reshape_column xs) ys =
     (if xs = [] \<or> \<not> list_all isfinite xs \<or> \<not> list_all isfinite ys \<or> length xs \<noteq> length ys
      then Inl ValueError else Inr ())"
  by (auto simp: check_X_y_def reshape_column_def list_all_iff)

text \<open>
  C7, as stated, fails: no InsufficientDataError exists. With no observation at all the
  failure is the ValueError of the regression's input validation, raised before any
  solver runs.
\<close>

theorem C7_counterexample:
  "huber_hedge_ratio origin_slope ([] :: nat series) ([] :: nat series) = Inl ValueError"
  by (simp add: huber_hedge_ratio_def HuberRegressor_fit_def check_X_y_def reshape_column_def
      vals_def origin_slope_def)

text \<open>
  C7, amended. The function has no observation-count check of its own. With no
  observation the regression's input validation raises ValueError. With one or more
  paired finite observations the outcome is the solver's: the first coefficient of the
  fit as a single scalar, or the solver's error.
\<close>

theorem C7_no_count_check:
  "(x = [] \<longrightarrow> huber_hedge_ratio solve y x = Inl ValueError)
   \<and> (x \<noteq> [] \<and> length y = length x \<and> list_all isfinite (vals x) \<and> list_all isfinite (vals y) \<longrightarrow>
        huber_hedge_ratio solve y x =
          (case solve (map (\<lambda>v. [real_of v]) (vals x)) (map real_of (vals y)) of
             Inl err \<Rightarrow> Inl err
           | Inr coef \<Rightarrow> (case coef of [] \<Rightarrow> Inl IndexError | c # _ \<Rightarrow> Inr c)))"
proof (intro conjI impI)
  assume "x = []"
  then show "huber_hedge_ratio solve y x = Inl ValueError"
    by (simp add: huber_hedge_ratio_def HuberRegressor_fit_def check_X_y_column vals_def)
next
  assume a: "x \<noteq> [] \<and> length y = length x \<and> list_all isfinite (vals x) \<and> list_all isfinite (vals y)"
  then have "check_X_y (reshape_column (vals x)) (vals y) = Inr ()"
    by (simp add: check_X_y_column vals_def)
  then show "huber_hedge_ratio solve y x =
          (case solve (map (\<lambda>v. [real_of v]) (vals x)) (map real_of (vals y)) of
             Inl err \<Rightarrow> Inl err
           | Inr coef \<Rightarrow> (case coef of [] \<Rightarrow> Inl IndexError | c # _ \<Rightarrow> Inr c))"
    by (simp add: huber_hedge_ratio_def HuberRegressor_fit_def reshape_column_def comp_def)
qed

theorem C7_witness:
  "[(0::nat, Fin 3)] \<noteq> [] \<and> length [(0::nat, Fin 6)] = length [(0::nat, Fin 3)]
   \<and> list_all isfinite (vals [(0::nat, Fin 3)]) \<and> list_all isfinite (vals [(0::nat, Fin 6)])
   \<and> huber_hedge_ratio origin_slope [(0::nat, Fin 6)] [(0::nat, Fin 3)] = Inr (Fin 2)"
proof -
  have h: "[(0::nat, Fin 3)] \<noteq> [] \<and> length [(0::nat, Fin 6)] = length [(0::nat, Fin 3)]
   \<and> list_all isfinite (vals [(0::nat, Fin 3)]) \<and> list_all isfinite (vals [(0::nat, Fin 6)])"
    by (simp add: vals_def)
  from C7_no_count_check[of "[(0::nat, Fin 3)]" origin_slope "[(0::nat, Fin 6)]"] h
  have "huber_hedge_ratio origin_slope [(0::nat, Fin 6)] [(0::nat, Fin 3)] =
          (case origin_slope (map (\<lambda>v. [real_of v]) (vals [(0::nat, Fin 3)])) (map real_of (vals [(0::nat, Fin 6)])) of
             Inl err \<Rightarrow> Inl err
           | Inr coef \<Rightarrow> (case coef of [] \<Rightarrow> Inl IndexError | c # _ \<Rightarrow> Inr c))"
    by blast
  then have "huber_hedge_ratio origin_slope [(0::nat, Fin 6)] [(0::nat, Fin 3)] = Inr (Fin 2)"
    by (simp add: vals_def origin_slope_def)
  with h show ?thesis by blast
qed

end
